theory Spec2Isabelle
  imports Main
begin

section \<open>The data store (main.py, lines 40-66)\<close>

text \<open>
  The three mapped classes of \<^verbatim>\<open>main.py\<close>. Primary keys are integers assigned by the
  store; the two foreign keys of a comment and the foreign key of a post are nullable
  columns, so they are options. Columns that the forms always fill are plain strings.
  Field names carry a one-letter prefix because the three classes share column names.
\<close>

record User =
  u_id :: int
  u_email :: string
  u_password :: string
  u_name :: string

record BlogPost =
  p_id :: int
  p_author_id :: "int option"
  p_title :: string
  p_subtitle :: string
  p_date :: string
  p_body :: string
  p_img_url :: string

record Comment =
  c_id :: int
  c_author_id :: "int option"
  c_post_id :: "int option"
  c_text :: string

record db =
  users :: "User list"
  blog_posts :: "BlogPost list"
  comments :: "Comment list"

text \<open>
  The uniqueness constraints declared in the schema: \<^verbatim>\<open>User.email\<close> (line 42) and
  \<^verbatim>\<open>BlogPost.title\<close> (line 53) are \<^verbatim>\<open>unique=True\<close>, and each \<^verbatim>\<open>id\<close> is a primary key.
\<close>

definition constraints_ok :: "db \<Rightarrow> bool" where
  "constraints_ok d \<longleftrightarrow>
     distinct (map u_id (users d)) \<and> distinct (map u_email (users d)) \<and>
     distinct (map p_id (blog_posts d)) \<and> distinct (map p_title (blog_posts d)) \<and>
     distinct (map c_id (comments d))"

text \<open>An integer primary key is filled in by the store with the successor of the largest
  key in the table (1 for an empty table).\<close>

definition next_id :: "int list \<Rightarrow> int" where
  "next_id ids = foldr max ids 0 + 1"

text \<open>\<^verbatim>\<open>Model.query.get(id)\<close> and \<^verbatim>\<open>User.query.filter_by(email=...).first()\<close>: the row or
  \<^verbatim>\<open>None\<close>. This is the lookup for a key that the store's 64-bit integer column can
  hold; for a larger key the driver raises \<^verbatim>\<open>OverflowError\<close> instead of answering, which
  is why statements about absent posts carry \<open>post_id_in_range\<close> below.\<close>

definition User_query_get :: "db \<Rightarrow> int \<Rightarrow> User option" where
  "User_query_get d i = find (\<lambda>u. u_id u = i) (users d)"

definition BlogPost_query_get :: "db \<Rightarrow> int \<Rightarrow> BlogPost option" where
  "BlogPost_query_get d i = find (\<lambda>p. p_id p = i) (blog_posts d)"

definition User_query_filter_by_email_first :: "db \<Rightarrow> string \<Rightarrow> User option" where
  "User_query_filter_by_email_first d e = find (\<lambda>u. u_email u = e) (users d)"

section \<open>The ORM session: a unit of work over the store\<close>

text \<open>
  \<^verbatim>\<open>db.session\<close> collects changes and makes them durable only at \<^verbatim>\<open>commit()\<close>. The
  model keeps the durable contents, the session's working copy, and the list of
  snapshots that the request has committed so far (oldest first). At the end of a
  request the session is discarded, so only \<open>durable\<close> survives.
\<close>

record sa_session =
  durable :: db
  working :: db
  commit_log :: "db list"

datatype exn =
    AttributeError
  | IntegrityError
  | UnmappedInstanceError
  | HTTPException nat

definition session_begin :: "db \<Rightarrow> sa_session" where
  "session_begin d = \<lparr>durable = d, working = d, commit_log = []\<rparr>"

text \<open>\<^verbatim>\<open>db.session.commit()\<close>: the flush fails with \<^verbatim>\<open>IntegrityError\<close> when a uniqueness
  constraint is violated and then nothing becomes durable.\<close>

definition session_commit :: "sa_session \<Rightarrow> exn + sa_session" where
  "session_commit s =
     (if constraints_ok (working s)
      then Inr (s\<lparr>durable := working s, commit_log := commit_log s @ [working s]\<rparr>)
      else Inl IntegrityError)"

definition on_working :: "(db \<Rightarrow> db) \<Rightarrow> sa_session \<Rightarrow> sa_session" where
  "on_working f s = s\<lparr>working := f (working s)\<rparr>"

text \<open>\<^verbatim>\<open>db.session.add(obj)\<close> for each of the three classes; the key is the next free one.\<close>

definition session_add_user :: "User \<Rightarrow> sa_session \<Rightarrow> sa_session" where
  "session_add_user u =
     on_working (\<lambda>d. d\<lparr>users := users d @ [u\<lparr>u_id := next_id (map u_id (users d))\<rparr>]\<rparr>)"

definition session_add_post :: "BlogPost \<Rightarrow> sa_session \<Rightarrow> sa_session" where
  "session_add_post p =
     on_working (\<lambda>d. d\<lparr>blog_posts := blog_posts d @ [p\<lparr>p_id := next_id (map p_id (blog_posts d))\<rparr>]\<rparr>)"

definition session_add_comment :: "Comment \<Rightarrow> sa_session \<Rightarrow> sa_session" where
  "session_add_comment cm =
     on_working (\<lambda>d. d\<lparr>comments := comments d @ [cm\<lparr>c_id := next_id (map c_id (comments d))\<rparr>]\<rparr>)"

text \<open>
  \<^verbatim>\<open>user.comments.append(comment)\<close> and \<^verbatim>\<open>post.comments.append(comment)\<close> on the comment
  that was just added (the last pending row): the relationship writes the owner's key
  into the comment's foreign-key column.
\<close>

definition attach_last_comment :: "(Comment \<Rightarrow> Comment) \<Rightarrow> sa_session \<Rightarrow> sa_session" where
  "attach_last_comment f =
     on_working (\<lambda>d. case rev (comments d) of
                        [] \<Rightarrow> d
                      | cm # older \<Rightarrow> d\<lparr>comments := rev older @ [f cm]\<rparr>)"

text \<open>
  \<^verbatim>\<open>db.session.delete(post)\<close>: the row goes. The relationship \<^verbatim>\<open>BlogPost.comments\<close> (line 58)
  declares no delete cascade, so the ORM keeps the post's comments and clears their
  \<^verbatim>\<open>post_id\<close>.
\<close>

definition session_delete_post :: "BlogPost \<Rightarrow> sa_session \<Rightarrow> sa_session" where
  "session_delete_post p =
     on_working (\<lambda>d. d\<lparr>blog_posts := filter (\<lambda>q. p_id q \<noteq> p_id p) (blog_posts d),
                       comments := map (\<lambda>cm. if c_post_id cm = Some (p_id p)
                                             then cm\<lparr>c_post_id := None\<rparr> else cm) (comments d)\<rparr>)"

section \<open>Requests, forms and what the libraries contribute\<close>

datatype http_method = GET | HEAD | POST | PUT | PATCH | DELETE

text \<open>
  A request carries its verb, the verdict of the CSRF check that every \<^verbatim>\<open>FlaskForm\<close>
  performs, and the submitted form fields (an absent field is the empty string).
\<close>

record request =
  rq_method :: http_method
  csrf_valid :: bool
  f_title :: string
  f_subtitle :: string
  f_img_url :: string
  f_body :: string
  f_email :: string
  f_password :: string
  f_name :: string

text \<open>
  What the source imports and does not define: the three wtforms validators, the two
  werkzeug password functions, the salt that \<^verbatim>\<open>generate_password_hash\<close> draws
  (\<^verbatim>\<open>salt_length=8\<close>) and today's date as formatted by \<^verbatim>\<open>strftime("%B %d, %Y")\<close>.
  They are parameters of the model.
\<close>

record environ =
  DataRequired :: "string \<Rightarrow> bool"
  URL :: "string \<Rightarrow> bool"
  Email :: "string \<Rightarrow> bool"
  generate_password_hash :: "string \<Rightarrow> string \<Rightarrow> string"
  check_password_hash :: "string \<Rightarrow> string \<Rightarrow> bool"
  salt :: string
  today :: string

text \<open>forms.py: one conjunct per declared validator, in field order.\<close>

definition CreatePostForm_validate :: "environ \<Rightarrow> request \<Rightarrow> bool" where
  "CreatePostForm_validate E rq \<longleftrightarrow>
     csrf_valid rq \<and>
     DataRequired E (f_title rq) \<and>
     DataRequired E (f_subtitle rq) \<and>
     DataRequired E (f_img_url rq) \<and> URL E (f_img_url rq) \<and>
     DataRequired E (f_body rq)"

definition CreateCommentForm_validate :: "environ \<Rightarrow> request \<Rightarrow> bool" where
  "CreateCommentForm_validate E rq \<longleftrightarrow> csrf_valid rq \<and> DataRequired E (f_body rq)"

definition UserForm_validate :: "environ \<Rightarrow> request \<Rightarrow> bool" where
  "UserForm_validate E rq \<longleftrightarrow>
     csrf_valid rq \<and>
     DataRequired E (f_email rq) \<and> Email E (f_email rq) \<and>
     DataRequired E (f_password rq) \<and>
     DataRequired E (f_name rq)"

text \<open>\<^verbatim>\<open>LoginForm\<close> replaces \<^verbatim>\<open>name\<close> by a hidden field without validators.\<close>

definition LoginForm_validate :: "environ \<Rightarrow> request \<Rightarrow> bool" where
  "LoginForm_validate E rq \<longleftrightarrow>
     csrf_valid rq \<and>
     DataRequired E (f_email rq) \<and> Email E (f_email rq) \<and>
     DataRequired E (f_password rq)"

text \<open>\<^verbatim>\<open>form.validate_on_submit()\<close> is \<^verbatim>\<open>is_submitted() and validate()\<close>; a form counts as
  submitted for the four writing methods.\<close>

definition is_submitted :: "request \<Rightarrow> bool" where
  "is_submitted rq \<longleftrightarrow> rq_method rq \<in> {POST, PUT, PATCH, DELETE}"

definition validate_on_submit :: "(request \<Rightarrow> bool) \<Rightarrow> request \<Rightarrow> bool" where
  "validate_on_submit validate rq \<longleftrightarrow> is_submitted rq \<and> validate rq"

section \<open>The request context: ORM session, login session, flashed messages\<close>

record ctx =
  sa :: sa_session
  user_id_cookie :: "int option"
  flashes :: "string list"

datatype current_user = AnonymousUserMixin | LoggedIn User

text \<open>main.py, lines 80-83, and flask-login's \<^verbatim>\<open>current_user\<close>: the user the cookie names,
  or the anonymous placeholder when there is no cookie or \<^verbatim>\<open>load_user\<close> finds nobody.\<close>

definition load_user :: "ctx \<Rightarrow> int \<Rightarrow> User option" where
  "load_user c user_id = User_query_get (working (sa c)) user_id"

definition current_user :: "ctx \<Rightarrow> current_user" where
  "current_user c =
     (case user_id_cookie c of
        None \<Rightarrow> AnonymousUserMixin
      | Some i \<Rightarrow> (case load_user c i of None \<Rightarrow> AnonymousUserMixin | Some u \<Rightarrow> LoggedIn u))"

definition is_authenticated :: "current_user \<Rightarrow> bool" where
  "is_authenticated cu = (case cu of AnonymousUserMixin \<Rightarrow> False | LoggedIn u \<Rightarrow> True)"

text \<open>\<^verbatim>\<open>current_user.id\<close>: the anonymous placeholder has no such attribute.\<close>

definition current_user_id :: "current_user \<Rightarrow> exn + int" where
  "current_user_id cu = (case cu of AnonymousUserMixin \<Rightarrow> Inl AttributeError | LoggedIn u \<Rightarrow> Inr (u_id u))"

definition login_user :: "User \<Rightarrow> ctx \<Rightarrow> ctx" where
  "login_user u c = c\<lparr>user_id_cookie := Some (u_id u)\<rparr>"

definition logout_user :: "ctx \<Rightarrow> ctx" where
  "logout_user c = c\<lparr>user_id_cookie := None\<rparr>"

definition flash :: "string \<Rightarrow> ctx \<Rightarrow> ctx" where
  "flash msg c = c\<lparr>flashes := flashes c @ [msg]\<rparr>"

section \<open>What a view function yields\<close>

datatype endpoint = To_login | To_get_all_posts | To_show_post int

datatype page =
    Register_html
  | Login_html
  | Index_html "BlogPost list"
  | Post_html "BlogPost option"
  | Make_post_html
  | About_html
  | Contact_html

datatype response = Render page | Redirect endpoint

text \<open>A Python call returns a response, returns \<^verbatim>\<open>None\<close> (falling off the end of the
  function), or raises.\<close>

datatype outcome = Return response | ReturnNone | Raise exn

definition abort :: "nat \<Rightarrow> outcome" where
  "abort code = Raise (HTTPException code)"

section \<open>The admin gate (main.py, lines 69-77)\<close>

text \<open>
  The body of \<^verbatim>\<open>inner\<close> inside its \<^verbatim>\<open>try\<close>: reading \<^verbatim>\<open>current_user.id\<close> may raise; when the
  id is 1 the wrapped function runs and its result is returned; otherwise the \<^verbatim>\<open>if\<close> has
  no \<^verbatim>\<open>else\<close> and \<^verbatim>\<open>inner\<close> falls off its end.
\<close>

definition admin_only_try :: "(ctx \<Rightarrow> outcome \<times> ctx) \<Rightarrow> ctx \<Rightarrow> outcome \<times> ctx" where
  "admin_only_try func c =
     (case current_user_id (current_user c) of
        Inl e \<Rightarrow> (Raise e, c)
      | Inr i \<Rightarrow> if i = 1 then func c else (ReturnNone, c))"

text \<open>The \<^verbatim>\<open>except AttributeError\<close> clause covers the whole \<^verbatim>\<open>try\<close>, the call of the wrapped
  function included.\<close>

definition admin_only :: "(ctx \<Rightarrow> outcome \<times> ctx) \<Rightarrow> ctx \<Rightarrow> outcome \<times> ctx" where
  "admin_only func c =
     (case admin_only_try func c of
        (Raise AttributeError, c') \<Rightarrow> (abort 403, c')
      | r \<Rightarrow> r)"

text \<open>flask-login's \<^verbatim>\<open>login_required\<close>; no login view is configured, so an anonymous
  visitor gets \<^verbatim>\<open>abort(401)\<close>.\<close>

definition login_required :: "(ctx \<Rightarrow> outcome \<times> ctx) \<Rightarrow> ctx \<Rightarrow> outcome \<times> ctx" where
  "login_required func c =
     (if is_authenticated (current_user c) then func c else (abort 401, c))"

section \<open>The view functions (main.py, lines 86-214)\<close>

definition register :: "environ \<Rightarrow> request \<Rightarrow> ctx \<Rightarrow> outcome \<times> ctx" where
  "register E rq c =
     (if rq_method rq = POST \<and> validate_on_submit (UserForm_validate E) rq then
        let pass_hash = generate_password_hash E (salt E) (f_password rq);
            user = \<lparr>u_id = 0, u_email = f_email rq, u_password = pass_hash, u_name = f_name rq\<rparr>;
            c1 = c\<lparr>sa := session_add_user user (sa c)\<rparr>
        in (case session_commit (sa c1) of
              Inl e \<Rightarrow>
                (if e = IntegrityError
                 then (Return (Redirect To_login), flash ''This email address is already used'' c1)
                 else (Raise e, c1))
            | Inr s \<Rightarrow> (Return (Redirect To_get_all_posts), c1\<lparr>sa := s\<rparr>))
      else (Return (Render Register_html), c))"

definition login :: "environ \<Rightarrow> request \<Rightarrow> ctx \<Rightarrow> outcome \<times> ctx" where
  "login E rq c =
     (if rq_method rq = POST \<and> validate_on_submit (LoginForm_validate E) rq then
        (case User_query_filter_by_email_first (working (sa c)) (f_email rq) of
           Some user \<Rightarrow>
             (if check_password_hash E (u_password user) (f_password rq)
              then (Return (Redirect To_get_all_posts), login_user user c)
              else (Return (Redirect To_login), flash ''Wrong password.'' c))
         | None \<Rightarrow> (Return (Redirect To_login), flash ''Email address not found.'' c))
      else (Return (Render Login_html), c))"

definition logout :: "ctx \<Rightarrow> outcome \<times> ctx" where
  "logout c = (Return (Redirect To_get_all_posts), logout_user c)"

definition get_all_posts :: "ctx \<Rightarrow> outcome \<times> ctx" where
  "get_all_posts c = (Return (Render (Index_html (blog_posts (working (sa c))))), c)"

text \<open>
  \<^verbatim>\<open>show_post\<close>, lines 138-153. The comment is built with its text only, added to the
  session, given its author by \<^verbatim>\<open>current_user.comments.append\<close> and its post by
  \<^verbatim>\<open>requested_post.comments.append\<close> (which raises \<^verbatim>\<open>AttributeError\<close> on \<^verbatim>\<open>None\<close>), and
  committed.
\<close>

definition show_post :: "environ \<Rightarrow> request \<Rightarrow> int \<Rightarrow> ctx \<Rightarrow> outcome \<times> ctx" where
  "show_post E rq post_id c =
     (let requested_post = BlogPost_query_get (working (sa c)) post_id in
      if rq_method rq = POST \<and> validate_on_submit (CreateCommentForm_validate E) rq then
        (case current_user c of
           LoggedIn u \<Rightarrow>
             let comment = \<lparr>c_id = 0, c_author_id = None, c_post_id = None, c_text = f_body rq\<rparr>;
                 c1 = c\<lparr>sa := session_add_comment comment (sa c)\<rparr>;
                 c2 = c1\<lparr>sa := attach_last_comment (\<lambda>cm. cm\<lparr>c_author_id := Some (u_id u)\<rparr>) (sa c1)\<rparr>
             in (case requested_post of
                   None \<Rightarrow> (Raise AttributeError, c2)
                 | Some p \<Rightarrow>
                     let c3 = c2\<lparr>sa := attach_last_comment (\<lambda>cm. cm\<lparr>c_post_id := Some (p_id p)\<rparr>) (sa c2)\<rparr>
                     in (case session_commit (sa c3) of
                           Inl e \<Rightarrow> (Raise e, c3)
                         | Inr s \<Rightarrow> (Return (Render (Post_html requested_post)), c3\<lparr>sa := s\<rparr>)))
         | AnonymousUserMixin \<Rightarrow>
             (Return (Redirect To_login), flash ''Sorry, you need to log in first!'' c))
      else (Return (Render (Post_html requested_post)), c))"

text \<open>\<^verbatim>\<open>add_new_post\<close>, lines 158-172; \<^verbatim>\<open>current_user.posts.append\<close> writes the author's key
  (the anonymous placeholder has no \<^verbatim>\<open>posts\<close>).\<close>

definition add_new_post :: "environ \<Rightarrow> request \<Rightarrow> ctx \<Rightarrow> outcome \<times> ctx" where
  "add_new_post E rq c =
     (if validate_on_submit (CreatePostForm_validate E) rq then
        let new_post = \<lparr>p_id = 0, p_author_id = None, p_title = f_title rq,
                        p_subtitle = f_subtitle rq, p_date = today E, p_body = f_body rq,
                        p_img_url = f_img_url rq\<rparr>
        in (case current_user c of
              AnonymousUserMixin \<Rightarrow> (Raise AttributeError, c)
            | LoggedIn u \<Rightarrow>
                let c1 = c\<lparr>sa := session_add_post (new_post\<lparr>p_author_id := Some (u_id u)\<rparr>) (sa c)\<rparr>
                in (case session_commit (sa c1) of
                      Inl e \<Rightarrow> (Raise e, c1)
                    | Inr s \<Rightarrow> (Return (Redirect To_get_all_posts), c1\<lparr>sa := s\<rparr>)))
      else (Return (Render Make_post_html), c))"

text \<open>
  \<^verbatim>\<open>edit_post\<close>, lines 177-195. Building the form reads \<^verbatim>\<open>post.title\<close> (an
  \<^verbatim>\<open>AttributeError\<close> when the lookup gave \<^verbatim>\<open>None\<close>) and \<^verbatim>\<open>post.author\<close>; the update reads
  \<^verbatim>\<open>edit_form.author\<close>. Neither \<^verbatim>\<open>BlogPost\<close> (lines 49-58) nor \<^verbatim>\<open>CreatePostForm\<close>
  (forms.py, lines 8-13) declares an attribute \<^verbatim>\<open>author\<close>.
\<close>

definition BlogPost_author :: "BlogPost \<Rightarrow> exn + string" where
  "BlogPost_author post = Inl AttributeError"

definition CreatePostForm_author :: "request \<Rightarrow> exn + string" where
  "CreatePostForm_author rq = Inl AttributeError"

definition update_post :: "int \<Rightarrow> (BlogPost \<Rightarrow> BlogPost) \<Rightarrow> sa_session \<Rightarrow> sa_session" where
  "update_post i f = on_working (\<lambda>d. d\<lparr>blog_posts := map (\<lambda>q. if p_id q = i then f q else q) (blog_posts d)\<rparr>)"

definition edit_post :: "environ \<Rightarrow> request \<Rightarrow> int \<Rightarrow> ctx \<Rightarrow> outcome \<times> ctx" where
  "edit_post E rq post_id c =
     (case BlogPost_query_get (working (sa c)) post_id of
        None \<Rightarrow> (Raise AttributeError, c)
      | Some post \<Rightarrow>
          (case BlogPost_author post of
             Inl e \<Rightarrow> (Raise e, c)
           | Inr author \<Rightarrow>
               if validate_on_submit (CreatePostForm_validate E) rq then
                 let c1 = c\<lparr>sa := update_post (p_id post)
                                (\<lambda>q. q\<lparr>p_title := f_title rq, p_subtitle := f_subtitle rq,
                                       p_img_url := f_img_url rq\<rparr>) (sa c)\<rparr>
                 in (case CreatePostForm_author rq of
                       Inl e \<Rightarrow> (Raise e, c1)
                     | Inr a \<Rightarrow>
                         let c2 = c1\<lparr>sa := update_post (p_id post) (\<lambda>q. q\<lparr>p_body := f_body rq\<rparr>) (sa c1)\<rparr>
                         in (case session_commit (sa c2) of
                               Inl e \<Rightarrow> (Raise e, c2)
                             | Inr s \<Rightarrow> (Return (Redirect (To_show_post (p_id post))), c2\<lparr>sa := s\<rparr>)))
               else (Return (Render Make_post_html), c)))"

text \<open>\<^verbatim>\<open>delete_post\<close>, lines 200-204; \<^verbatim>\<open>db.session.delete(None)\<close> raises
  \<^verbatim>\<open>UnmappedInstanceError\<close>, which is not an \<^verbatim>\<open>AttributeError\<close>.\<close>

definition delete_post :: "int \<Rightarrow> ctx \<Rightarrow> outcome \<times> ctx" where
  "delete_post post_id c =
     (case BlogPost_query_get (working (sa c)) post_id of
        None \<Rightarrow> (Raise UnmappedInstanceError, c)
      | Some post_to_delete \<Rightarrow>
          let c1 = c\<lparr>sa := session_delete_post post_to_delete (sa c)\<rparr>
          in (case session_commit (sa c1) of
                Inl e \<Rightarrow> (Raise e, c1)
              | Inr s \<Rightarrow> (Return (Redirect To_get_all_posts), c1\<lparr>sa := s\<rparr>)))"

definition about :: "ctx \<Rightarrow> outcome \<times> ctx" where
  "about c = (Return (Render About_html), c)"

definition contact :: "ctx \<Rightarrow> outcome \<times> ctx" where
  "contact c = (Return (Render Contact_html), c)"

section \<open>Routing and the life of one request\<close>

datatype route =
    Register_route
  | Login_route
  | Logout_route
  | Index_route
  | Post_route int
  | New_post_route
  | Edit_post_route int
  | Delete_route int
  | About_route
  | Contact_route

text \<open>
  The \<^verbatim>\<open>methods\<close> argument of each \<^verbatim>\<open>@app.route\<close>; a route declared without it accepts
  \<^verbatim>\<open>GET\<close> only (line 175 declares none for \<^verbatim>\<open>/edit-post\<close>). The framework serves \<^verbatim>\<open>HEAD\<close>
  wherever \<^verbatim>\<open>GET\<close> is accepted and answers any other verb with 405 before the view
  function is called.
\<close>

fun route_methods :: "route \<Rightarrow> http_method list" where
  "route_methods Register_route = [GET, POST]"
| "route_methods Login_route = [GET, POST]"
| "route_methods (Post_route i) = [GET, POST]"
| "route_methods New_post_route = [GET, POST]"
| "route_methods r = [GET]"

definition method_allowed :: "route \<Rightarrow> http_method \<Rightarrow> bool" where
  "method_allowed r m \<longleftrightarrow> m \<in> set (route_methods r) \<or> (m = HEAD \<and> GET \<in> set (route_methods r))"

text \<open>Each route with the decorators the source puts on its view function.\<close>

fun view_function :: "environ \<Rightarrow> route \<Rightarrow> request \<Rightarrow> ctx \<Rightarrow> outcome \<times> ctx" where
  "view_function E Register_route rq = register E rq"
| "view_function E Login_route rq = login E rq"
| "view_function E Logout_route rq = login_required logout"
| "view_function E Index_route rq = get_all_posts"
| "view_function E (Post_route i) rq = show_post E rq i"
| "view_function E New_post_route rq = admin_only (add_new_post E rq)"
| "view_function E (Edit_post_route i) rq = admin_only (edit_post E rq i)"
| "view_function E (Delete_route i) rq = admin_only (delete_post i)"
| "view_function E About_route rq = about"
| "view_function E Contact_route rq = contact"

definition dispatch_request :: "environ \<Rightarrow> route \<Rightarrow> request \<Rightarrow> ctx \<Rightarrow> outcome \<times> ctx" where
  "dispatch_request E r rq c =
     (if method_allowed r (rq_method rq) then view_function E r rq c else (abort 405, c))"

text \<open>
  The HTTP status the framework sends: a rendered page is 200 (the templates are not
  part of the source; rendering is taken to succeed), a redirect 302, an
  \<^verbatim>\<open>abort(code)\<close> its code; a view function that returns \<^verbatim>\<open>None\<close> and any other uncaught
  exception are server errors.
\<close>

fun status_code :: "outcome \<Rightarrow> nat" where
  "status_code (Return (Render pg)) = 200"
| "status_code (Return (Redirect ep)) = 302"
| "status_code ReturnNone = 500"
| "status_code (Raise (HTTPException code)) = code"
| "status_code (Raise e) = 500"

text \<open>What lasts between requests: the durable store, the login cookie and the flashed
  messages.\<close>

record app_state =
  database :: db
  session_user :: "int option"
  flashed :: "string list"

definition enter :: "app_state \<Rightarrow> ctx" where
  "enter st = \<lparr>sa = session_begin (database st), user_id_cookie = session_user st,
               flashes = flashed st\<rparr>"

definition leave :: "ctx \<Rightarrow> app_state" where
  "leave c = \<lparr>database = durable (sa c), session_user = user_id_cookie c, flashed = flashes c\<rparr>"

definition handle_request :: "environ \<Rightarrow> route \<Rightarrow> request \<Rightarrow> app_state \<Rightarrow> outcome \<times> app_state" where
  "handle_request E r rq st =
     (case dispatch_request E r rq (enter st) of (out, c) \<Rightarrow> (out, leave c))"

text \<open>The snapshots a request commits, for counting commits.\<close>

definition commits_of :: "environ \<Rightarrow> route \<Rightarrow> request \<Rightarrow> app_state \<Rightarrow> db list" where
  "commits_of E r rq st = commit_log (sa (snd (dispatch_request E r rq (enter st))))"

section \<open>Notions used in the statements\<close>

text \<open>The row that \<^verbatim>\<open>register\<close> (lines 94-100) inserts into store \<open>d\<close> for a request.\<close>

definition registered_user :: "environ \<Rightarrow> request \<Rightarrow> db \<Rightarrow> User" where
  "registered_user E rq d =
     \<lparr>u_id = next_id (map u_id (users d)), u_email = f_email rq,
      u_password = generate_password_hash E (salt E) (f_password rq), u_name = f_name rq\<rparr>"

text \<open>The store after \<^verbatim>\<open>session_delete_post\<close> for the post with id \<open>i\<close>.\<close>

definition without_post :: "int \<Rightarrow> db \<Rightarrow> db" where
  "without_post i d =
     d\<lparr>blog_posts := filter (\<lambda>q. p_id q \<noteq> i) (blog_posts d),
       comments := map (\<lambda>cm. if c_post_id cm = Some i then cm\<lparr>c_post_id := None\<rparr> else cm)
                     (comments d)\<rparr>"

text \<open>Between two contexts of one request, the commit log is the same or one snapshot
  longer.\<close>

definition commits_grow :: "ctx \<Rightarrow> ctx \<Rightarrow> bool" where
  "commits_grow c c' \<longleftrightarrow>
     commit_log (sa c') = commit_log (sa c) \<or>
     (\<exists>d. commit_log (sa c') = commit_log (sa c) @ [d])"

text \<open>
  The post ids for which a request reaches a view function and its lookup answers: the
  converter of \<^verbatim>\<open><int:post_id>\<close> (lines 138, 175, 198) matches digits only, so a negative
  id is answered 404 by the router, and an id of \<open>2 ^ 63\<close> or more does not fit the
  store's integer column, so \<^verbatim>\<open>BlogPost.query.get\<close> raises \<^verbatim>\<open>OverflowError\<close>.
\<close>

definition post_id_in_range :: "int \<Rightarrow> bool" where
  "post_id_in_range i \<longleftrightarrow> 0 \<le> i \<and> i < 2 ^ 63"

section \<open>Sample inputs\<close>

text \<open>
  Concrete inputs on which the theorems below are evaluated. The validators and the
  password functions of \<open>sample_environ\<close> are small stand-ins for the library's, chosen
  so that terms compute; no theorem about all environments depends on them.
\<close>

definition sample_environ :: environ where
  "sample_environ =
     \<lparr>DataRequired = (\<lambda>s. s \<noteq> []),
      URL = (\<lambda>s. take 7 s = ''http://''),
      Email = (\<lambda>s. CHR ''@'' \<in> set s),
      generate_password_hash = (\<lambda>sl pw. sl @ ''$'' @ rev pw),
      check_password_hash = (\<lambda>h pw. dropWhile (\<lambda>ch. ch \<noteq> CHR ''$'') h = ''$'' @ rev pw),
      salt = ''abcdefgh'',
      today = ''November 03, 2026''\<rparr>"

definition admin_user :: User where
  "admin_user = \<lparr>u_id = 1, u_email = ''admin@x.com'', u_password = ''abcdefgh$toor'',
                 u_name = ''Admin''\<rparr>"

definition alice :: User where
  "alice = \<lparr>u_id = 2, u_email = ''a@x.com'', u_password = ''abcdefgh$wp'', u_name = ''Alice''\<rparr>"

definition first_post :: BlogPost where
  "first_post = \<lparr>p_id = 1, p_author_id = Some 1, p_title = ''Hello'', p_subtitle = ''World'',
                 p_date = ''November 01, 2026'', p_body = ''Text'',
                 p_img_url = ''http://x.com/a.png''\<rparr>"

definition first_comment :: Comment where
  "first_comment = \<lparr>c_id = 1, c_author_id = Some 2, c_post_id = Some 1, c_text = ''Nice''\<rparr>"

definition sample_db :: db where
  "sample_db = \<lparr>users = [admin_user, alice], blog_posts = [first_post],
                comments = [first_comment]\<rparr>"

definition sample_state :: "int option \<Rightarrow> app_state" where
  "sample_state who = \<lparr>database = sample_db, session_user = who, flashed = []\<rparr>"

definition blank_request :: "http_method \<Rightarrow> request" where
  "blank_request m = \<lparr>rq_method = m, csrf_valid = True, f_title = [], f_subtitle = [],
                      f_img_url = [], f_body = [], f_email = [], f_password = [], f_name = []\<rparr>"

definition post_form :: "http_method \<Rightarrow> string \<Rightarrow> request" where
  "post_form m img = (blank_request m)\<lparr>f_title := ''Second'', f_subtitle := ''Post'',
                                        f_img_url := img, f_body := ''More text''\<rparr>"

definition user_form :: "string \<Rightarrow> string \<Rightarrow> string \<Rightarrow> request" where
  "user_form e pw n = (blank_request POST)\<lparr>f_email := e, f_password := pw, f_name := n\<rparr>"

definition comment_form :: "string \<Rightarrow> request" where
  "comment_form txt = (blank_request POST)\<lparr>f_body := txt\<rparr>"

definition carol :: User where
  "carol = \<lparr>u_id = 3, u_email = ''c@x.com'', u_password = ''abcdefgh$3wp'', u_name = ''Carol''\<rparr>"

definition state_with_carol :: "int option \<Rightarrow> app_state" where
  "state_with_carol who =
     \<lparr>database = sample_db\<lparr>users := [admin_user, alice, carol]\<rparr>, session_user = who,
      flashed = []\<rparr>"

lemmas sample_defs = sample_environ_def admin_user_def alice_def first_post_def
  first_comment_def sample_db_def sample_state_def blank_request_def post_form_def
  user_form_def comment_form_def carol_def state_with_carol_def

lemmas request_defs = handle_request_def dispatch_request_def method_allowed_def enter_def
  leave_def session_begin_def commits_of_def

lemmas user_defs = current_user_def current_user_id_def load_user_def User_query_get_def
  is_authenticated_def

lemmas form_defs = validate_on_submit_def is_submitted_def CreatePostForm_validate_def
  CreateCommentForm_validate_def UserForm_validate_def LoginForm_validate_def

lemmas orm_defs = session_commit_def on_working_def session_add_user_def session_add_post_def
  session_add_comment_def attach_last_comment_def session_delete_post_def update_post_def
  constraints_ok_def next_id_def BlogPost_query_get_def User_query_filter_by_email_first_def

section \<open>The admin gate\<close>

lemma admin_only_anonymous:
  "current_user c = AnonymousUserMixin \<Longrightarrow> admin_only func c = (abort 403, c)"
  by (simp add: admin_only_def admin_only_try_def current_user_id_def)

lemma admin_only_not_admin:
  "current_user c = LoggedIn u \<Longrightarrow> u_id u \<noteq> 1 \<Longrightarrow> admin_only func c = (ReturnNone, c)"
  by (simp add: admin_only_def admin_only_try_def current_user_id_def)

lemma admin_only_admin:
  "current_user c = LoggedIn u \<Longrightarrow> u_id u = 1 \<Longrightarrow>
   admin_only func c =
     (case func c of (Raise AttributeError, c') \<Rightarrow> (abort 403, c') | r \<Rightarrow> r)"
  by (simp add: admin_only_def admin_only_try_def current_user_id_def)

text \<open>
  Claim C1. The gate runs the wrapped handler exactly for the user whose id is 1, and
  every other session never reaches the handler and leaves the store as it was. The
  claim also says that every other session is answered with Forbidden (403). The code
  does that for an anonymous visitor only: for a logged-in user whose id is not 1 the
  \<^verbatim>\<open>if\<close> of \<^verbatim>\<open>inner\<close> has no \<^verbatim>\<open>else\<close>, the view function returns \<^verbatim>\<open>None\<close>, and the
  framework answers 500. The theorem evaluates the three gated routes for the sample
  user with id 2, and the create-post route for an anonymous visitor.
\<close>

theorem admin_gate_non_admin_returns_none:
  "handle_request sample_environ New_post_route (post_form POST ''http://x.com/b.png'')
     (sample_state (Some 2)) = (ReturnNone, sample_state (Some 2)) \<and>
   handle_request sample_environ (Edit_post_route 1) (blank_request GET)
     (sample_state (Some 2)) = (ReturnNone, sample_state (Some 2)) \<and>
   handle_request sample_environ (Delete_route 1) (blank_request GET)
     (sample_state (Some 2)) = (ReturnNone, sample_state (Some 2)) \<and>
   status_code ReturnNone = 500 \<and>
   handle_request sample_environ New_post_route (post_form POST ''http://x.com/b.png'')
     (sample_state None) = (abort 403, sample_state None) \<and>
   status_code (abort 403) = 403"
  by (simp add: request_defs user_defs sample_defs admin_only_def admin_only_try_def abort_def)

section \<open>Entering and leaving a request\<close>

lemma enter_simps:
  "working (sa (enter st)) = database st"
  "durable (sa (enter st)) = database st"
  "commit_log (sa (enter st)) = []"
  "user_id_cookie (enter st) = session_user st"
  "flashes (enter st) = flashed st"
  by (simp_all add: enter_def session_begin_def)

lemma leave_enter: "leave (enter st) = st"
  by (simp add: enter_def leave_def session_begin_def)

lemma leave_flash_enter: "leave (flash msg (enter st)) = st\<lparr>flashed := flashed st @ [msg]\<rparr>"
  by (simp add: enter_def leave_def session_begin_def flash_def)

lemma leave_login_enter:
  "leave (login_user u (enter st)) = st\<lparr>session_user := Some (u_id u)\<rparr>"
  by (simp add: enter_def leave_def session_begin_def login_user_def)

lemma find_None_set: "find P xs = None \<longleftrightarrow> (\<forall>x\<in>set xs. \<not> P x)"
  by (induction xs) auto

section \<open>Commenting without a login\<close>

text \<open>
  Claim C4. A comment submission (a POST whose comment form validates) from a visitor
  who is not authenticated is answered with the flash message and a redirect to the
  login page; the whole state apart from the flashed message, and so the comments
  table, is as before. This holds for every post id, existing or not.
\<close>

theorem comment_requires_login:
  assumes "rq_method rq = POST" and "CreateCommentForm_validate E rq"
    and "current_user (enter st) = AnonymousUserMixin"
  shows "handle_request E (Post_route i) rq st =
           (Return (Redirect To_login),
            st\<lparr>flashed := flashed st @ [''Sorry, you need to log in first!'']\<rparr>) \<and>
         comments (database (snd (handle_request E (Post_route i) rq st))) =
           comments (database st)"
  using assms
  by (simp add: handle_request_def dispatch_request_def method_allowed_def show_post_def
      validate_on_submit_def is_submitted_def leave_flash_enter Let_def)

theorem comment_requires_login_witness:
  "rq_method (comment_form ''Hi'') = POST \<and>
   CreateCommentForm_validate sample_environ (comment_form ''Hi'') \<and>
   current_user (enter (sample_state None)) = AnonymousUserMixin \<and>
   BlogPost_query_get (database (sample_state None)) 1 = Some first_post \<and>
   handle_request sample_environ (Post_route 1) (comment_form ''Hi'') (sample_state None) =
     (Return (Redirect To_login),
      (sample_state None)\<lparr>flashed := [''Sorry, you need to log in first!'']\<rparr>) \<and>
   comments (database (snd (handle_request sample_environ (Post_route 1) (comment_form ''Hi'')
     (sample_state None)))) = [first_comment]"
proof -
  have m: "rq_method (comment_form ''Hi'') = POST" by (simp add: sample_defs)
  have v: "CreateCommentForm_validate sample_environ (comment_form ''Hi'')"
    by (simp add: CreateCommentForm_validate_def sample_defs)
  have a: "current_user (enter (sample_state None)) = AnonymousUserMixin"
    by (simp add: current_user_def enter_def sample_defs)
  have p: "BlogPost_query_get (database (sample_state None)) 1 = Some first_post"
    by (simp add: BlogPost_query_get_def sample_defs)
  show ?thesis using comment_requires_login [OF m v a, of 1] m v a p by (simp add: sample_defs)
qed

section \<open>Login\<close>

lemma login_valid:
  assumes "rq_method rq = POST" and "LoginForm_validate E rq"
  shows "handle_request E Login_route rq st =
     (case User_query_filter_by_email_first (database st) (f_email rq) of
        None \<Rightarrow> (Return (Redirect To_login),
                 st\<lparr>flashed := flashed st @ [''Email address not found.'']\<rparr>)
      | Some user \<Rightarrow>
          if check_password_hash E (u_password user) (f_password rq)
          then (Return (Redirect To_get_all_posts), st\<lparr>session_user := Some (u_id user)\<rparr>)
          else (Return (Redirect To_login), st\<lparr>flashed := flashed st @ [''Wrong password.'']\<rparr>))"
  using assms
  by (simp add: handle_request_def dispatch_request_def method_allowed_def login_def
      validate_on_submit_def is_submitted_def leave_flash_enter enter_simps leave_login_enter
      split: option.split)

text \<open>
  Claim C3. For a login submission (a POST whose login form validates): when no user
  has the email, the answer is the message ``Email address not found.'' and a redirect
  to the login page (UnknownEmail); when the user exists and the password does not
  match the stored hash, the message ``Wrong password.'' and the same redirect
  (InvalidCredentials); when it matches, the login cookie is bound to that user. In
  both failure cases only the flashed messages change, and whenever the login cookie
  changes, the email was found and the password matched.
\<close>

theorem login_outcomes:
  assumes "rq_method rq = POST" and "LoginForm_validate E rq"
  shows "((\<forall>u\<in>set (users (database st)). u_email u \<noteq> f_email rq) \<longrightarrow>
            handle_request E Login_route rq st =
              (Return (Redirect To_login),
               st\<lparr>flashed := flashed st @ [''Email address not found.'']\<rparr>)) \<and>
         (\<forall>user. User_query_filter_by_email_first (database st) (f_email rq) = Some user \<longrightarrow>
            \<not> check_password_hash E (u_password user) (f_password rq) \<longrightarrow>
            handle_request E Login_route rq st =
              (Return (Redirect To_login),
               st\<lparr>flashed := flashed st @ [''Wrong password.'']\<rparr>)) \<and>
         (\<forall>user. User_query_filter_by_email_first (database st) (f_email rq) = Some user \<longrightarrow>
            check_password_hash E (u_password user) (f_password rq) \<longrightarrow>
            handle_request E Login_route rq st =
              (Return (Redirect To_get_all_posts), st\<lparr>session_user := Some (u_id user)\<rparr>)) \<and>
         (session_user (snd (handle_request E Login_route rq st)) \<noteq> session_user st \<longrightarrow>
            (\<exists>user. User_query_filter_by_email_first (database st) (f_email rq) = Some user \<and>
                    check_password_hash E (u_password user) (f_password rq) \<and>
                    session_user (snd (handle_request E Login_route rq st)) = Some (u_id user)))"
proof -
  have none: "User_query_filter_by_email_first (database st) (f_email rq) = None"
    if "\<forall>u\<in>set (users (database st)). u_email u \<noteq> f_email rq"
    using that by (simp add: User_query_filter_by_email_first_def find_None_set)
  show ?thesis
    using none by (auto simp: login_valid [OF assms] split: option.splits if_splits)
qed

theorem login_outcomes_witness:
  "rq_method (user_form ''a@x.com'' ''pw'' []) = POST \<and>
   LoginForm_validate sample_environ (user_form ''a@x.com'' ''pw'' []) \<and>
   handle_request sample_environ Login_route (user_form ''a@x.com'' ''pw'' [])
     (sample_state None) = (Return (Redirect To_get_all_posts), sample_state (Some 2)) \<and>
   handle_request sample_environ Login_route (user_form ''a@x.com'' ''wrong'' [])
     (sample_state None) =
       (Return (Redirect To_login), (sample_state None)\<lparr>flashed := [''Wrong password.'']\<rparr>) \<and>
   handle_request sample_environ Login_route (user_form ''b@x.com'' ''pw'' [])
     (sample_state None) =
       (Return (Redirect To_login),
        (sample_state None)\<lparr>flashed := [''Email address not found.'']\<rparr>)"
proof -
  have v: "LoginForm_validate sample_environ (user_form e p n)"
    if "e \<noteq> []" "CHR ''@'' \<in> set e" "p \<noteq> []" for e p n
    using that by (simp add: LoginForm_validate_def sample_defs)
  have m: "rq_method (user_form e p n) = POST" for e p n by (simp add: sample_defs)
  have a: "User_query_filter_by_email_first (database (sample_state None))
             (f_email (user_form ''a@x.com'' p n)) = Some alice" for p n
    by (simp add: sample_defs User_query_filter_by_email_first_def)
  have b: "\<forall>u\<in>set (users (database (sample_state None))).
              u_email u \<noteq> f_email (user_form ''b@x.com'' p n)" for p n
    by (simp add: sample_defs)
  have 1: "handle_request sample_environ Login_route (user_form ''a@x.com'' ''pw'' [])
     (sample_state None) = (Return (Redirect To_get_all_posts), sample_state (Some 2))"
    using login_outcomes [where E = sample_environ and rq = "user_form ''a@x.com'' ''pw'' []"
        and st = "sample_state None"] m v a
    by (simp add: sample_defs)
  have 2: "handle_request sample_environ Login_route (user_form ''a@x.com'' ''wrong'' [])
     (sample_state None) =
       (Return (Redirect To_login), (sample_state None)\<lparr>flashed := [''Wrong password.'']\<rparr>)"
    using login_outcomes [where E = sample_environ and rq = "user_form ''a@x.com'' ''wrong'' []"
        and st = "sample_state None"] m v a
    by (simp add: sample_defs)
  have 3: "handle_request sample_environ Login_route (user_form ''b@x.com'' ''pw'' [])
     (sample_state None) =
       (Return (Redirect To_login),
        (sample_state None)\<lparr>flashed := [''Email address not found.'']\<rparr>)"
    using login_outcomes [where E = sample_environ and rq = "user_form ''b@x.com'' ''pw'' []"
        and st = "sample_state None"] m v b
    by (simp add: sample_defs)
  from 1 2 3 m v show ?thesis by simp
qed

section \<open>Registration\<close>

lemma foldr_max_ge: "i \<in> set ids \<Longrightarrow> i \<le> foldr max ids (0::int)"
  by (induction ids) auto

lemma next_id_fresh: "next_id ids \<notin> set ids"
  using foldr_max_ge [of "next_id ids" ids] by (auto simp: next_id_def)

lemma length_filter_distinct_key:
  "distinct (map f xs) \<Longrightarrow> x \<in> set xs \<Longrightarrow> length (filter (\<lambda>y. f y = f x) xs) = 1"
proof (induction xs)
  case Nil
  then show ?case by simp
next
  case (Cons a xs)
  show ?case
  proof (cases "f a = f x")
    case True
    with Cons.prems have "\<forall>y\<in>set xs. f y \<noteq> f x" by (auto simp: image_iff)
    then have "filter (\<lambda>y. f y = f x) xs = []" by (simp add: filter_empty_conv)
    with True show ?thesis by simp
  next
    case False
    with Cons show ?thesis by auto
  qed
qed

lemma find_snoc_fresh: "\<forall>x\<in>set xs. \<not> P x \<Longrightarrow> P y \<Longrightarrow> find P (xs @ [y]) = Some y"
  by (induction xs) auto

text \<open>A valid submission is decided by the commit alone: the new row either fits the
  uniqueness constraints and becomes durable, or the \<^verbatim>\<open>IntegrityError\<close> is caught.\<close>

lemma register_valid:
  assumes "rq_method rq = POST" and "UserForm_validate E rq"
  shows "handle_request E Register_route rq st =
     (if constraints_ok
           ((database st)\<lparr>users := users (database st) @ [registered_user E rq (database st)]\<rparr>)
      then (Return (Redirect To_get_all_posts),
            st\<lparr>database := (database st)\<lparr>users := users (database st) @
                              [registered_user E rq (database st)]\<rparr>\<rparr>)
      else (Return (Redirect To_login),
            st\<lparr>flashed := flashed st @ [''This email address is already used'']\<rparr>))"
  using assms
  by (simp add: handle_request_def dispatch_request_def method_allowed_def register_def
      validate_on_submit_def is_submitted_def enter_def leave_def session_begin_def flash_def
      session_commit_def session_add_user_def on_working_def registered_user_def Let_def)

lemma register_duplicate:
  assumes "rq_method rq = POST" and "UserForm_validate E rq"
    and "\<exists>u\<in>set (users (database st)). u_email u = f_email rq"
  shows "handle_request E Register_route rq st =
           (Return (Redirect To_login),
            st\<lparr>flashed := flashed st @ [''This email address is already used'']\<rparr>)"
proof -
  from assms(3) have "f_email rq \<in> set (map u_email (users (database st)))" by force
  then have "\<not> constraints_ok
      ((database st)\<lparr>users := users (database st) @ [registered_user E rq (database st)]\<rparr>)"
    by (simp add: constraints_ok_def registered_user_def)
  then show ?thesis by (simp add: register_valid [OF assms(1,2)])
qed

lemma register_fresh:
  assumes "rq_method rq = POST" and "UserForm_validate E rq"
    and "constraints_ok (database st)"
    and "\<forall>u\<in>set (users (database st)). u_email u \<noteq> f_email rq"
  shows "handle_request E Register_route rq st =
           (Return (Redirect To_get_all_posts),
            st\<lparr>database := (database st)\<lparr>users := users (database st) @
                              [registered_user E rq (database st)]\<rparr>\<rparr>)"
proof -
  from assms(3,4) have "constraints_ok
      ((database st)\<lparr>users := users (database st) @ [registered_user E rq (database st)]\<rparr>)"
    using next_id_fresh [of "map u_id (users (database st))"]
    by (auto simp: constraints_ok_def registered_user_def)
  then show ?thesis by (simp add: register_valid [OF assms(1,2)])
qed

text \<open>
  Claim C2. For a registration (a POST whose user form validates) on a store that
  satisfies its uniqueness constraints: when a user with the email exists, the answer
  is the message ``This email address is already used'' and a redirect to the login
  page (DuplicateEmail), the store is untouched, and it still holds exactly one user
  with that email; when no user has the email, exactly one row is appended to the
  users table, with the next free id, the submitted email and name, and as password
  the salted hash that \<^verbatim>\<open>generate_password_hash\<close> returns for the submitted password.
\<close>

theorem register_outcomes:
  assumes "rq_method rq = POST" and "UserForm_validate E rq"
    and "constraints_ok (database st)"
  shows "((\<exists>u\<in>set (users (database st)). u_email u = f_email rq) \<longrightarrow>
            handle_request E Register_route rq st =
              (Return (Redirect To_login),
               st\<lparr>flashed := flashed st @ [''This email address is already used'']\<rparr>) \<and>
            length (filter (\<lambda>u. u_email u = f_email rq)
                      (users (database (snd (handle_request E Register_route rq st))))) = 1) \<and>
         ((\<forall>u\<in>set (users (database st)). u_email u \<noteq> f_email rq) \<longrightarrow>
            handle_request E Register_route rq st =
              (Return (Redirect To_get_all_posts),
               st\<lparr>database := (database st)\<lparr>users := users (database st) @
                  [\<lparr>u_id = next_id (map u_id (users (database st))), u_email = f_email rq,
                    u_password = generate_password_hash E (salt E) (f_password rq),
                    u_name = f_name rq\<rparr>]\<rparr>\<rparr>))"
proof (intro conjI impI)
  assume dup: "\<exists>u\<in>set (users (database st)). u_email u = f_email rq"
  show r: "handle_request E Register_route rq st =
              (Return (Redirect To_login),
               st\<lparr>flashed := flashed st @ [''This email address is already used'']\<rparr>)"
    by (rule register_duplicate [OF assms(1,2) dup])
  from dup obtain u where u: "u \<in> set (users (database st))" "u_email u = f_email rq"
    by blast
  from assms(3) have "distinct (map u_email (users (database st)))"
    by (simp add: constraints_ok_def)
  from length_filter_distinct_key [OF this u(1)] u(2)
  show "length (filter (\<lambda>u. u_email u = f_email rq)
                      (users (database (snd (handle_request E Register_route rq st))))) = 1"
    by (simp add: r)
next
  assume fresh: "\<forall>u\<in>set (users (database st)). u_email u \<noteq> f_email rq"
  show "handle_request E Register_route rq st =
              (Return (Redirect To_get_all_posts),
               st\<lparr>database := (database st)\<lparr>users := users (database st) @
                  [\<lparr>u_id = next_id (map u_id (users (database st))), u_email = f_email rq,
                    u_password = generate_password_hash E (salt E) (f_password rq),
                    u_name = f_name rq\<rparr>]\<rparr>\<rparr>)"
    using register_fresh [OF assms fresh] by (simp add: registered_user_def)
qed

theorem register_outcomes_witness:
  "rq_method (user_form ''a@x.com'' ''pw2'' ''Al'') = POST \<and>
   UserForm_validate sample_environ (user_form ''a@x.com'' ''pw2'' ''Al'') \<and>
   UserForm_validate sample_environ (user_form ''c@x.com'' ''pw3'' ''Carol'') \<and>
   constraints_ok (database (sample_state None)) \<and>
   handle_request sample_environ Register_route (user_form ''a@x.com'' ''pw2'' ''Al'')
     (sample_state None) =
       (Return (Redirect To_login),
        (sample_state None)\<lparr>flashed := [''This email address is already used'']\<rparr>) \<and>
   handle_request sample_environ Register_route (user_form ''c@x.com'' ''pw3'' ''Carol'')
     (sample_state None) =
       (Return (Redirect To_get_all_posts),
        (sample_state None)\<lparr>database := sample_db\<lparr>users := [admin_user, alice,
           \<lparr>u_id = 3, u_email = ''c@x.com'', u_password = ''abcdefgh$3wp'',
            u_name = ''Carol''\<rparr>]\<rparr>\<rparr>)"
proof -
  have m: "rq_method (user_form e p n) = POST" for e p n by (simp add: sample_defs)
  have v: "UserForm_validate sample_environ (user_form e p n)"
    if "e \<noteq> []" "CHR ''@'' \<in> set e" "p \<noteq> []" "n \<noteq> []" for e p n
    using that by (simp add: UserForm_validate_def sample_defs)
  have c: "constraints_ok (database (sample_state None))"
    by (simp add: constraints_ok_def sample_defs)
  have 1: "handle_request sample_environ Register_route (user_form ''a@x.com'' ''pw2'' ''Al'')
     (sample_state None) =
       (Return (Redirect To_login),
        (sample_state None)\<lparr>flashed := [''This email address is already used'']\<rparr>)"
    using register_outcomes [where E = sample_environ
        and rq = "user_form ''a@x.com'' ''pw2'' ''Al''" and st = "sample_state None"] m v c
    by (simp add: sample_defs)
  have 2: "handle_request sample_environ Register_route (user_form ''c@x.com'' ''pw3'' ''Carol'')
     (sample_state None) =
       (Return (Redirect To_get_all_posts),
        (sample_state None)\<lparr>database := sample_db\<lparr>users := [admin_user, alice,
           \<lparr>u_id = 3, u_email = ''c@x.com'', u_password = ''abcdefgh$3wp'',
            u_name = ''Carol''\<rparr>]\<rparr>\<rparr>)"
    using register_outcomes [where E = sample_environ
        and rq = "user_form ''c@x.com'' ''pw3'' ''Carol''" and st = "sample_state None"] m v c
    by (simp add: sample_defs next_id_def)
  from 1 2 m v c show ?thesis by simp
qed

text \<open>
  Claim C10. A successful registration (valid submission, fresh email) redirects to
  the post list and leaves the login cookie as it was: \<^verbatim>\<open>register\<close> never calls
  \<^verbatim>\<open>login_user\<close>. A visitor without a cookie is therefore still not authenticated
  afterwards. A following login submission with the registered email and password
  binds the cookie to the new user, provided the library's \<^verbatim>\<open>check_password_hash\<close>
  accepts the hash that \<^verbatim>\<open>generate_password_hash\<close> made of that password.
\<close>

theorem register_does_not_log_in:
  assumes "rq_method rq = POST" and "UserForm_validate E rq"
    and "constraints_ok (database st)"
    and "\<forall>u\<in>set (users (database st)). u_email u \<noteq> f_email rq"
    and "handle_request E Register_route rq st = (out, st')"
  shows "out = Return (Redirect To_get_all_posts) \<and>
         session_user st' = session_user st \<and>
         (session_user st = None \<longrightarrow> \<not> is_authenticated (current_user (enter st'))) \<and>
         (\<forall>lq. rq_method lq = POST \<and> LoginForm_validate E lq \<and> f_email lq = f_email rq \<and>
               f_password lq = f_password rq \<and>
               check_password_hash E (generate_password_hash E (salt E) (f_password rq))
                 (f_password rq) \<longrightarrow>
               handle_request E Login_route lq st' =
                 (Return (Redirect To_get_all_posts),
                  st'\<lparr>session_user := Some (next_id (map u_id (users (database st))))\<rparr>))"
proof -
  let ?u = "registered_user E rq (database st)"
  from register_fresh [OF assms(1-4)] assms(5)
  have out: "out = Return (Redirect To_get_all_posts)"
    and st': "st' = st\<lparr>database := (database st)\<lparr>users := users (database st) @ [?u]\<rparr>\<rparr>"
    by simp_all
  have look: "User_query_filter_by_email_first (database st') (f_email rq) = Some ?u"
    using assms(4)
    by (simp add: st' User_query_filter_by_email_first_def find_snoc_fresh registered_user_def)
  have login: "handle_request E Login_route lq st' =
                 (Return (Redirect To_get_all_posts),
                  st'\<lparr>session_user := Some (next_id (map u_id (users (database st))))\<rparr>)"
    if "rq_method lq = POST" "LoginForm_validate E lq" "f_email lq = f_email rq"
       "f_password lq = f_password rq"
       "check_password_hash E (generate_password_hash E (salt E) (f_password rq)) (f_password rq)"
    for lq
    using that look by (simp add: login_valid registered_user_def)
  have anon: "\<not> is_authenticated (current_user (enter st'))" if "session_user st = None"
    using that by (simp add: st' current_user_def is_authenticated_def enter_def)
  from out st' login anon show ?thesis by simp
qed

theorem register_does_not_log_in_witness:
  "rq_method (user_form ''c@x.com'' ''pw3'' ''Carol'') = POST \<and>
   UserForm_validate sample_environ (user_form ''c@x.com'' ''pw3'' ''Carol'') \<and>
   constraints_ok (database (sample_state None)) \<and>
   map u_email (users (database (sample_state None))) = [''admin@x.com'', ''a@x.com''] \<and>
   handle_request sample_environ Register_route (user_form ''c@x.com'' ''pw3'' ''Carol'')
     (sample_state None) = (Return (Redirect To_get_all_posts), state_with_carol None) \<and>
   session_user (state_with_carol None) = session_user (sample_state None) \<and>
   \<not> is_authenticated (current_user (enter (state_with_carol None))) \<and>
   handle_request sample_environ Login_route (user_form ''c@x.com'' ''pw3'' [])
     (state_with_carol None) = (Return (Redirect To_get_all_posts), state_with_carol (Some 3))"
proof -
  let ?rq = "user_form ''c@x.com'' ''pw3'' ''Carol''"
  let ?lq = "user_form ''c@x.com'' ''pw3'' []"
  have m: "rq_method ?rq = POST" by (simp add: sample_defs)
  have v: "UserForm_validate sample_environ ?rq" by (simp add: UserForm_validate_def sample_defs)
  have c: "constraints_ok (database (sample_state None))"
    by (simp add: constraints_ok_def sample_defs)
  have f: "\<forall>u\<in>set (users (database (sample_state None))). u_email u \<noteq> f_email ?rq"
    by (simp add: sample_defs)
  have r: "handle_request sample_environ Register_route ?rq (sample_state None) =
             (Return (Redirect To_get_all_posts), state_with_carol None)"
    by (simp add: request_defs form_defs orm_defs register_def sample_defs Let_def)
  have l: "rq_method ?lq = POST \<and> LoginForm_validate sample_environ ?lq \<and>
           f_email ?lq = f_email ?rq \<and> f_password ?lq = f_password ?rq \<and>
           check_password_hash sample_environ
             (generate_password_hash sample_environ (salt sample_environ) (f_password ?rq))
             (f_password ?rq)"
    by (simp add: LoginForm_validate_def sample_defs)
  from register_does_not_log_in [OF m v c f r] l
  have "session_user (state_with_carol None) = session_user (sample_state None) \<and>
        \<not> is_authenticated (current_user (enter (state_with_carol None))) \<and>
        handle_request sample_environ Login_route ?lq (state_with_carol None) =
          (Return (Redirect To_get_all_posts), state_with_carol (Some 3))"
    by (simp add: sample_defs next_id_def)
  moreover have "map u_email (users (database (sample_state None))) =
                   [''admin@x.com'', ''a@x.com'']"
    by (simp add: sample_defs)
  ultimately show ?thesis using m v c r by simp
qed

section \<open>Deleting a post\<close>

lemma find_Some_key: "find (\<lambda>x. f x = k) xs = Some y \<Longrightarrow> y \<in> set xs \<and> f y = k"
  by (induction xs) (auto split: if_splits)

lemma same_key_same_row:
  "distinct (map f xs) \<Longrightarrow> x \<in> set xs \<Longrightarrow> y \<in> set xs \<Longrightarrow> f x = f y \<Longrightarrow> x = y"
  by (meson distinct_map inj_onD)

lemma filter_other_keys_set:
  assumes "distinct (map f xs)" and "x \<in> set xs"
  shows "set (filter (\<lambda>y. f y \<noteq> f x) xs) = set xs - {x}"
proof -
  have "y = x" if "y \<in> set xs" "f y = f x" for y
    using same_key_same_row [OF assms(1) that(1) assms(2) that(2)] .
  then show ?thesis using assms(2) by auto
qed

lemma filter_other_keys_length:
  assumes "distinct (map f xs)" and "x \<in> set xs"
  shows "length (filter (\<lambda>y. f y \<noteq> f x) xs) + 1 = length xs"
  using length_filter_distinct_key [OF assms] sum_length_filter_compl [of "\<lambda>y. f y = f x" xs]
  by simp

lemma constraints_ok_without_post: "constraints_ok d \<Longrightarrow> constraints_ok (without_post i d)"
  by (simp add: constraints_ok_def without_post_def distinct_map_filter comp_def if_distrib
      cong: if_cong)

lemma delete_post_existing:
  assumes "BlogPost_query_get (working (sa c)) i = Some p" and "constraints_ok (working (sa c))"
  shows "delete_post i c =
           (Return (Redirect To_get_all_posts),
            c\<lparr>sa := (sa c)\<lparr>working := without_post i (working (sa c)),
                          durable := without_post i (working (sa c)),
                          commit_log := commit_log (sa c) @ [without_post i (working (sa c))]\<rparr>\<rparr>)"
proof -
  from assms(1) have pid: "p_id p = i"
    using find_Some_key [of p_id i "blog_posts (working (sa c))" p]
    by (simp add: BlogPost_query_get_def)
  have w: "working (session_delete_post p (sa c)) = without_post i (working (sa c))"
    by (simp add: session_delete_post_def on_working_def without_post_def pid)
  show ?thesis
    using assms constraints_ok_without_post [OF assms(2), of i]
    by (simp add: delete_post_def Let_def session_commit_def w)
       (simp add: session_delete_post_def on_working_def without_post_def pid)
qed

text \<open>
  Claim C9. When the admin deletes an existing post (on a store that satisfies its
  constraints), the answer is a redirect to the post list and the new store differs
  from the old one as follows: the users table is the same; the posts table is the old
  one without the rows with that id, which is exactly the old table minus the deleted
  row, one row shorter; the comments table has the same rows in the same order, with
  the same ids, authors and texts: no comment is deleted, and the comments that
  referred to the deleted post have their post reference cleared by the ORM. The login
  cookie and the flashed messages are unchanged.
\<close>

theorem delete_post_removes_only_the_post:
  assumes "current_user (enter st) = LoggedIn u" and "u_id u = 1"
    and "BlogPost_query_get (database st) i = Some p"
    and "constraints_ok (database st)"
    and "rq_method rq = GET"
  shows "\<exists>d'. handle_request E (Delete_route i) rq st =
                (Return (Redirect To_get_all_posts), st\<lparr>database := d'\<rparr>) \<and>
              users d' = users (database st) \<and>
              blog_posts d' = filter (\<lambda>q. p_id q \<noteq> i) (blog_posts (database st)) \<and>
              set (blog_posts d') = set (blog_posts (database st)) - {p} \<and>
              length (blog_posts d') + 1 = length (blog_posts (database st)) \<and>
              comments d' = map (\<lambda>cm. if c_post_id cm = Some i then cm\<lparr>c_post_id := None\<rparr> else cm)
                              (comments (database st)) \<and>
              map c_id (comments d') = map c_id (comments (database st)) \<and>
              map c_author_id (comments d') = map c_author_id (comments (database st)) \<and>
              map c_text (comments d') = map c_text (comments (database st))"
proof -
  let ?d = "database st"
  from assms(3) have p: "p \<in> set (blog_posts ?d)" "p_id p = i"
    using find_Some_key [of p_id i "blog_posts ?d" p] by (simp_all add: BlogPost_query_get_def)
  from assms(4) have dist: "distinct (map p_id (blog_posts ?d))"
    by (simp add: constraints_ok_def)
  have del: "delete_post i (enter st) =
           (Return (Redirect To_get_all_posts),
            (enter st)\<lparr>sa := (sa (enter st))\<lparr>working := without_post i ?d,
                          durable := without_post i ?d,
                          commit_log := [without_post i ?d]\<rparr>\<rparr>)"
    using delete_post_existing [of "enter st" i p] assms(3,4) by (simp add: enter_simps)
  have h: "handle_request E (Delete_route i) rq st =
             (Return (Redirect To_get_all_posts), st\<lparr>database := without_post i ?d\<rparr>)"
    using assms(1,2,5)
    by (simp add: handle_request_def dispatch_request_def method_allowed_def
        admin_only_admin [OF assms(1,2)] del leave_def enter_simps)
  have s: "set (blog_posts (without_post i ?d)) = set (blog_posts ?d) - {p}"
    using filter_other_keys_set [OF dist p(1)] by (simp add: without_post_def p(2))
  have l: "length (blog_posts (without_post i ?d)) + 1 = length (blog_posts ?d)"
    using filter_other_keys_length [OF dist p(1)] by (simp add: without_post_def p(2))
  have m: "map c_id (comments (without_post i ?d)) = map c_id (comments ?d)"
    "map c_author_id (comments (without_post i ?d)) = map c_author_id (comments ?d)"
    "map c_text (comments (without_post i ?d)) = map c_text (comments ?d)"
    by (simp_all add: without_post_def comp_def if_distrib cong: if_cong)
  have u: "users (without_post i ?d) = users ?d"
    and b: "blog_posts (without_post i ?d) = filter (\<lambda>q. p_id q \<noteq> i) (blog_posts ?d)"
    and cm: "comments (without_post i ?d) =
               map (\<lambda>cm. if c_post_id cm = Some i then cm\<lparr>c_post_id := None\<rparr> else cm)
                 (comments ?d)"
    by (simp_all add: without_post_def)
  show ?thesis
    by (intro exI [of _ "without_post i ?d"] conjI h u b s l cm m)
qed

theorem delete_post_removes_only_the_post_witness:
  "current_user (enter (sample_state (Some 1))) = LoggedIn admin_user \<and>
   u_id admin_user = 1 \<and>
   BlogPost_query_get (database (sample_state (Some 1))) 1 = Some first_post \<and>
   constraints_ok (database (sample_state (Some 1))) \<and>
   rq_method (blank_request GET) = GET \<and>
   handle_request sample_environ (Delete_route 1) (blank_request GET) (sample_state (Some 1)) =
     (Return (Redirect To_get_all_posts),
      (sample_state (Some 1))\<lparr>database :=
         \<lparr>users = [admin_user, alice], blog_posts = [],
          comments = [first_comment\<lparr>c_post_id := None\<rparr>]\<rparr>\<rparr>)"
proof -
  let ?st = "sample_state (Some 1)"
  have a: "current_user (enter ?st) = LoggedIn admin_user"
    by (simp add: user_defs enter_def session_begin_def sample_defs)
  have i: "u_id admin_user = 1" by (simp add: sample_defs)
  have p: "BlogPost_query_get (database ?st) 1 = Some first_post"
    by (simp add: BlogPost_query_get_def sample_defs)
  have c: "constraints_ok (database ?st)" by (simp add: constraints_ok_def sample_defs)
  have g: "rq_method (blank_request GET) = GET" by (simp add: sample_defs)
  from delete_post_removes_only_the_post [OF a i p c g, of sample_environ]
  obtain d' where
    h: "handle_request sample_environ (Delete_route 1) (blank_request GET) ?st =
          (Return (Redirect To_get_all_posts), ?st\<lparr>database := d'\<rparr>)"
    and u: "users d' = users (database ?st)"
    and b: "blog_posts d' = filter (\<lambda>q. p_id q \<noteq> 1) (blog_posts (database ?st))"
    and cm: "comments d' =
               map (\<lambda>cm. if c_post_id cm = Some 1 then cm\<lparr>c_post_id := None\<rparr> else cm)
                 (comments (database ?st))"
    by blast
  have "d' = \<lparr>users = [admin_user, alice], blog_posts = [],
              comments = [first_comment\<lparr>c_post_id := None\<rparr>]\<rparr>"
    by (rule db.equality) (simp_all add: u b cm sample_defs)
  with h a i p c g show ?thesis by simp
qed

section \<open>Editing a post\<close>

text \<open>Whatever the request and the store, \<^verbatim>\<open>edit_post\<close> ends in an \<^verbatim>\<open>AttributeError\<close>
  before it reaches its form: on \<^verbatim>\<open>post.title\<close> when the post is absent, on
  \<^verbatim>\<open>post.author\<close> when it is there.\<close>

lemma edit_post_raises: "edit_post E rq i c = (Raise AttributeError, c)"
  by (simp add: edit_post_def BlogPost_author_def split: option.split)

lemma edit_route_admin:
  assumes "current_user (enter st) = LoggedIn u" and "u_id u = 1"
  shows "handle_request E (Edit_post_route i) rq st =
           (if rq_method rq \<in> {GET, HEAD} then (abort 403, st) else (abort 405, st))"
  using assms
  by (auto simp: handle_request_def dispatch_request_def method_allowed_def
      admin_only_admin [OF assms] edit_post_raises leave_enter)

lemma add_new_post_invalid:
  "\<not> validate_on_submit (CreatePostForm_validate E) rq \<Longrightarrow>
   add_new_post E rq c = (Return (Render Make_post_html), c)"
  by (simp add: add_new_post_def)

lemma register_invalid:
  "\<not> (rq_method rq = POST \<and> UserForm_validate E rq) \<Longrightarrow>
   register E rq c = (Return (Render Register_html), c)"
  by (auto simp: register_def validate_on_submit_def)

lemma login_invalid:
  "\<not> (rq_method rq = POST \<and> LoginForm_validate E rq) \<Longrightarrow>
   login E rq c = (Return (Render Login_html), c)"
  by (auto simp: login_def validate_on_submit_def)

lemma show_post_invalid:
  "\<not> (rq_method rq = POST \<and> CreateCommentForm_validate E rq) \<Longrightarrow>
   show_post E rq i c =
     (Return (Render (Post_html (BlogPost_query_get (working (sa c)) i))), c)"
  by (auto simp: show_post_def validate_on_submit_def Let_def)

text \<open>
  Claim C6. For the admin and an existing post, submitting the edit form should update
  the post and redirect to its page. The code does neither. The route of line 175
  accepts \<^verbatim>\<open>GET\<close> only, so the submission (a POST) is answered 405 before \<^verbatim>\<open>edit_post\<close>
  runs; and \<^verbatim>\<open>edit_post\<close> itself raises \<^verbatim>\<open>AttributeError\<close> on \<^verbatim>\<open>post.author\<close>, which the
  admin gate turns into 403. The theorem evaluates the valid sample submission for the
  sample post 1 with the admin logged in: 405 for POST, 403 for GET, an
  \<^verbatim>\<open>AttributeError\<close> from the view function called directly, and the store as before
  in each case.
\<close>

theorem edit_post_never_updates:
  "current_user (enter (sample_state (Some 1))) = LoggedIn admin_user \<and>
   BlogPost_query_get (database (sample_state (Some 1))) 1 = Some first_post \<and>
   CreatePostForm_validate sample_environ (post_form POST ''http://x.com/b.png'') \<and>
   handle_request sample_environ (Edit_post_route 1) (post_form POST ''http://x.com/b.png'')
     (sample_state (Some 1)) = (abort 405, sample_state (Some 1)) \<and>
   handle_request sample_environ (Edit_post_route 1) (post_form GET ''http://x.com/b.png'')
     (sample_state (Some 1)) = (abort 403, sample_state (Some 1)) \<and>
   edit_post sample_environ (post_form POST ''http://x.com/b.png'') 1
     (enter (sample_state (Some 1))) = (Raise AttributeError, enter (sample_state (Some 1)))"
  by (simp add: request_defs user_defs form_defs sample_defs admin_only_def admin_only_try_def
      abort_def edit_post_def BlogPost_author_def BlogPost_query_get_def)

text \<open>
  Claim C5. A submission that breaks a field rule should change nothing in the store
  and get the form back. That holds for the register, login, comment and create-post
  forms (lemmas \<open>register_invalid\<close>, \<open>login_invalid\<close>, \<open>show_post_invalid\<close>,
  \<open>add_new_post_invalid\<close>). It fails for the edit form: the store is unchanged, but the
  form is never shown again, because \<^verbatim>\<open>edit_post\<close> never reaches its
  \<^verbatim>\<open>render_template\<close>. The theorem evaluates the sample submission whose image field is
  not URL-shaped, with the admin logged in: on the edit route it is answered 405 (POST)
  or 403 (GET) and the view function raises; on the create route the same submission
  gets the form back.
\<close>

theorem edit_form_not_presented_again:
  "\<not> URL sample_environ ''not a url'' \<and>
   \<not> CreatePostForm_validate sample_environ (post_form POST ''not a url'') \<and>
   handle_request sample_environ (Edit_post_route 1) (post_form POST ''not a url'')
     (sample_state (Some 1)) = (abort 405, sample_state (Some 1)) \<and>
   handle_request sample_environ (Edit_post_route 1) (post_form GET ''not a url'')
     (sample_state (Some 1)) = (abort 403, sample_state (Some 1)) \<and>
   edit_post sample_environ (post_form POST ''not a url'') 1
     (enter (sample_state (Some 1))) = (Raise AttributeError, enter (sample_state (Some 1))) \<and>
   handle_request sample_environ New_post_route (post_form POST ''not a url'')
     (sample_state (Some 1)) = (Return (Render Make_post_html), sample_state (Some 1))"
  by (simp add: request_defs user_defs form_defs sample_defs admin_only_def admin_only_try_def
      abort_def edit_post_def BlogPost_author_def BlogPost_query_get_def add_new_post_def)

section \<open>Commits per request\<close>

lemma admin_only_state: "snd (admin_only f c) = c \<or> snd (admin_only f c) = snd (f c)"
  by (auto simp: admin_only_def admin_only_try_def abort_def
      split: sum.splits prod.splits outcome.splits exn.splits)

lemma commits_grow_refl: "commits_grow c c"
  by (simp add: commits_grow_def)

lemma commits_grow_admin_only:
  "commits_grow c (snd (f c)) \<Longrightarrow> commits_grow c (snd (admin_only f c))"
  using admin_only_state [of f c] by (auto simp: commits_grow_refl)

lemma commits_grow_register: "commits_grow c (snd (register E rq c))"
  by (auto simp: commits_grow_def register_def Let_def session_commit_def session_add_user_def
      on_working_def flash_def split: sum.splits)

lemma commits_grow_login: "commits_grow c (snd (login E rq c))"
  by (auto simp: commits_grow_def login_def login_user_def flash_def split: option.splits)

lemma commits_grow_show_post: "commits_grow c (snd (show_post E rq i c))"
  by (auto simp: commits_grow_def show_post_def Let_def session_commit_def session_add_comment_def
      attach_last_comment_def on_working_def flash_def
      split: sum.splits option.splits current_user.splits)

lemma commits_grow_add_new_post: "commits_grow c (snd (add_new_post E rq c))"
  by (auto simp: commits_grow_def add_new_post_def Let_def session_commit_def session_add_post_def
      on_working_def split: sum.splits current_user.splits)

lemma commits_grow_delete_post: "commits_grow c (snd (delete_post i c))"
  by (auto simp: commits_grow_def delete_post_def Let_def session_commit_def
      session_delete_post_def on_working_def split: sum.splits option.splits)

lemma commits_grow_view: "commits_grow c (snd (view_function E r rq c))"
proof (cases r)
  case Logout_route
  then show ?thesis
    by (simp add: login_required_def logout_def logout_user_def commits_grow_def abort_def)
qed (simp_all add: commits_grow_register commits_grow_login commits_grow_show_post
      commits_grow_admin_only commits_grow_add_new_post commits_grow_delete_post
      edit_post_raises commits_grow_refl get_all_posts_def about_def contact_def)

text \<open>
  Claim C8, as the code has it. Every request commits at most once, the
  comment-creation path included. That path builds the comment with its text only, adds
  it to the session, attaches the author and the post, and then commits once: when a
  request to the post route commits at all, the visitor is logged in, the post exists,
  and the single committed snapshot is the old store with one new comment that carries
  both references. No snapshot with a comment lacking them is ever committed.
\<close>

theorem one_commit_per_request:
  "length (commits_of E r rq st) \<le> 1 \<and>
   (commits_of E (Post_route i) rq st \<noteq> [] \<longrightarrow>
      (\<exists>u p. current_user (enter st) = LoggedIn u \<and>
             BlogPost_query_get (database st) i = Some p \<and>
             commits_of E (Post_route i) rq st =
               [(database st)\<lparr>comments := comments (database st) @
                  [\<lparr>c_id = next_id (map c_id (comments (database st))),
                    c_author_id = Some (u_id u), c_post_id = Some (p_id p),
                    c_text = f_body rq\<rparr>]\<rparr>]))"
proof
  show "length (commits_of E r rq st) \<le> 1"
    using commits_grow_view [of "enter st" E r rq]
    by (auto simp: commits_of_def dispatch_request_def commits_grow_def enter_simps)
next
  show "commits_of E (Post_route i) rq st \<noteq> [] \<longrightarrow>
      (\<exists>u p. current_user (enter st) = LoggedIn u \<and>
             BlogPost_query_get (database st) i = Some p \<and>
             commits_of E (Post_route i) rq st =
               [(database st)\<lparr>comments := comments (database st) @
                  [\<lparr>c_id = next_id (map c_id (comments (database st))),
                    c_author_id = Some (u_id u), c_post_id = Some (p_id p),
                    c_text = f_body rq\<rparr>]\<rparr>])"
    by (auto simp: commits_of_def dispatch_request_def show_post_def Let_def enter_simps
        session_commit_def session_add_comment_def attach_last_comment_def on_working_def
        flash_def abort_def
        split: if_splits current_user.splits option.splits sum.splits)
qed

theorem one_commit_per_request_witness:
  "commits_of sample_environ (Post_route 1) (comment_form ''Hi'') (sample_state (Some 2)) \<noteq> [] \<and>
   current_user (enter (sample_state (Some 2))) = LoggedIn alice \<and>
   BlogPost_query_get (database (sample_state (Some 2))) 1 = Some first_post \<and>
   length (commits_of sample_environ (Post_route 1) (comment_form ''Hi'')
     (sample_state (Some 2))) \<le> 1 \<and>
   commits_of sample_environ (Post_route 1) (comment_form ''Hi'') (sample_state (Some 2)) =
     [sample_db\<lparr>comments := [first_comment,
        \<lparr>c_id = 2, c_author_id = Some (u_id alice), c_post_id = Some (p_id first_post),
         c_text = ''Hi''\<rparr>]\<rparr>]"
proof -
  let ?st = "sample_state (Some 2)"
  let ?cs = "commits_of sample_environ (Post_route 1) (comment_form ''Hi'') ?st"
  have n: "?cs \<noteq> []"
    by (simp add: request_defs user_defs form_defs orm_defs show_post_def sample_defs Let_def)
  have u: "current_user (enter ?st) = LoggedIn alice"
    by (simp add: user_defs enter_def session_begin_def sample_defs)
  have p: "BlogPost_query_get (database ?st) 1 = Some first_post"
    by (simp add: BlogPost_query_get_def sample_defs)
  from one_commit_per_request [of sample_environ "Post_route 1" "comment_form ''Hi''" ?st 1] n
  have l: "length ?cs \<le> 1"
    and "\<exists>u p. current_user (enter ?st) = LoggedIn u \<and>
               BlogPost_query_get (database ?st) 1 = Some p \<and>
               ?cs = [(database ?st)\<lparr>comments := comments (database ?st) @
                  [\<lparr>c_id = next_id (map c_id (comments (database ?st))),
                    c_author_id = Some (u_id u), c_post_id = Some (p_id p),
                    c_text = f_body (comment_form ''Hi'')\<rparr>]\<rparr>]"
    by blast+
  with u p have "?cs = [(database ?st)\<lparr>comments := comments (database ?st) @
                  [\<lparr>c_id = next_id (map c_id (comments (database ?st))),
                    c_author_id = Some (u_id alice), c_post_id = Some (p_id first_post),
                    c_text = f_body (comment_form ''Hi'')\<rparr>]\<rparr>]"
    by auto
  then have "?cs = [sample_db\<lparr>comments := [first_comment,
        \<lparr>c_id = 2, c_author_id = Some (u_id alice), c_post_id = Some (p_id first_post),
         c_text = ''Hi''\<rparr>]\<rparr>]"
    by (simp add: sample_state_def sample_db_def first_comment_def comment_form_def
        blank_request_def next_id_def)
  with n u p l show ?thesis by simp
qed

text \<open>Claim C8 as stated fails: on the sample store, a comment by the logged-in user 2
  on post 1 is committed once, not twice, and the committed comment has its author and
  its post.\<close>

theorem comment_path_commits_once:
  "commits_of sample_environ (Post_route 1) (comment_form ''Hi'') (sample_state (Some 2)) =
     [sample_db\<lparr>comments := [first_comment,
        \<lparr>c_id = 2, c_author_id = Some 2, c_post_id = Some 1, c_text = ''Hi''\<rparr>]\<rparr>] \<and>
   length (commits_of sample_environ (Post_route 1) (comment_form ''Hi'')
     (sample_state (Some 2))) \<noteq> 2"
  by (simp add: request_defs user_defs form_defs orm_defs show_post_def sample_defs Let_def)

section \<open>Fetching a post that is not there\<close>

text \<open>
  Claim C7, as the code has it. When no post has the requested id, and the id is one
  that the route converter passes and the store's integer column can hold
  (\<open>0 \<le> i < 2 ^ 63\<close>), the lookup returns \<^verbatim>\<open>None\<close> and no handler checks it. What follows depends on the handler. The view
  handler hands \<^verbatim>\<open>None\<close> to the template for a GET and for an invalid submission, and
  raises \<^verbatim>\<open>AttributeError\<close> (a server error, store unchanged) for a valid comment
  submission by a logged-in user. For the admin, the edit route ends in 403, because
  the gate's \<^verbatim>\<open>except AttributeError\<close> catches the failing \<^verbatim>\<open>post.title\<close>; the delete
  route raises \<^verbatim>\<open>UnmappedInstanceError\<close>, a server error, and the store is unchanged.
\<close>

theorem absent_post_outcomes:
  assumes "BlogPost_query_get (database st) i = None" and "post_id_in_range i"
  shows "((rq_method rq = GET \<or> rq_method rq = POST \<and> \<not> CreateCommentForm_validate E rq) \<longrightarrow>
            handle_request E (Post_route i) rq st = (Return (Render (Post_html None)), st)) \<and>
         (rq_method rq = POST \<and> CreateCommentForm_validate E rq \<and>
            is_authenticated (current_user (enter st)) \<longrightarrow>
            handle_request E (Post_route i) rq st = (Raise AttributeError, st) \<and>
            status_code (Raise AttributeError) = 500) \<and>
         (rq_method rq = GET \<and> (\<exists>u. current_user (enter st) = LoggedIn u \<and> u_id u = 1) \<longrightarrow>
            handle_request E (Edit_post_route i) rq st = (abort 403, st) \<and>
            status_code (abort 403) = 403 \<and>
            handle_request E (Delete_route i) rq st = (Raise UnmappedInstanceError, st) \<and>
            status_code (Raise UnmappedInstanceError) = 500)"
proof (intro conjI impI)
  assume "rq_method rq = GET \<or> rq_method rq = POST \<and> \<not> CreateCommentForm_validate E rq"
  then show "handle_request E (Post_route i) rq st = (Return (Render (Post_html None)), st)"
    using assms
    by (auto simp: handle_request_def dispatch_request_def method_allowed_def show_post_invalid
        enter_simps leave_enter)
next
  assume a: "rq_method rq = POST \<and> CreateCommentForm_validate E rq \<and>
            is_authenticated (current_user (enter st))"
  then obtain u where u: "current_user (enter st) = LoggedIn u"
    by (auto simp: is_authenticated_def split: current_user.splits)
  show "handle_request E (Post_route i) rq st = (Raise AttributeError, st)"
    using a u assms
    by (simp add: handle_request_def dispatch_request_def method_allowed_def show_post_def
        validate_on_submit_def is_submitted_def Let_def enter_simps leave_def
        session_add_comment_def attach_last_comment_def on_working_def)
  show "status_code (Raise AttributeError) = 500" by simp
next
  assume a: "rq_method rq = GET \<and> (\<exists>u. current_user (enter st) = LoggedIn u \<and> u_id u = 1)"
  then obtain u where u: "current_user (enter st) = LoggedIn u" "u_id u = 1" by blast
  show "handle_request E (Edit_post_route i) rq st = (abort 403, st)"
    using a by (simp add: edit_route_admin [OF u])
  show "status_code (abort 403) = 403" by (simp add: abort_def)
  show "handle_request E (Delete_route i) rq st = (Raise UnmappedInstanceError, st)"
    using a assms
    by (simp add: handle_request_def dispatch_request_def method_allowed_def
        admin_only_admin [OF u] delete_post_def enter_simps leave_enter)
  show "status_code (Raise UnmappedInstanceError) = 500" by simp
qed

theorem absent_post_outcomes_witness:
  "BlogPost_query_get (database (sample_state (Some 1))) 7 = None \<and>
   post_id_in_range 7 \<and>
   rq_method (blank_request GET) = GET \<and>
   current_user (enter (sample_state (Some 1))) = LoggedIn admin_user \<and> u_id admin_user = 1 \<and>
   rq_method (comment_form ''Hi'') = POST \<and>
   CreateCommentForm_validate sample_environ (comment_form ''Hi'') \<and>
   is_authenticated (current_user (enter (sample_state (Some 1)))) \<and>
   handle_request sample_environ (Post_route 7) (blank_request GET) (sample_state (Some 1)) =
     (Return (Render (Post_html None)), sample_state (Some 1)) \<and>
   handle_request sample_environ (Post_route 7) (comment_form ''Hi'') (sample_state (Some 1)) =
     (Raise AttributeError, sample_state (Some 1)) \<and>
   handle_request sample_environ (Edit_post_route 7) (blank_request GET) (sample_state (Some 1)) =
     (abort 403, sample_state (Some 1)) \<and>
   handle_request sample_environ (Delete_route 7) (blank_request GET) (sample_state (Some 1)) =
     (Raise UnmappedInstanceError, sample_state (Some 1))"
proof -
  let ?st = "sample_state (Some 1)"
  have n: "BlogPost_query_get (database ?st) 7 = None"
    by (simp add: BlogPost_query_get_def sample_defs)
  have r: "post_id_in_range 7" by (simp add: post_id_in_range_def)
  have g: "rq_method (blank_request GET) = GET" by (simp add: sample_defs)
  have a: "current_user (enter ?st) = LoggedIn admin_user"
    by (simp add: user_defs enter_def session_begin_def sample_defs)
  have i: "u_id admin_user = 1" by (simp add: sample_defs)
  have m: "rq_method (comment_form ''Hi'') = POST" by (simp add: sample_defs)
  have v: "CreateCommentForm_validate sample_environ (comment_form ''Hi'')"
    by (simp add: CreateCommentForm_validate_def sample_defs)
  have l: "is_authenticated (current_user (enter ?st))" by (simp add: a is_authenticated_def)
  from absent_post_outcomes [OF n r, of "blank_request GET" sample_environ] g a i
  have 1: "handle_request sample_environ (Post_route 7) (blank_request GET) ?st =
             (Return (Render (Post_html None)), ?st)"
    and 2: "handle_request sample_environ (Edit_post_route 7) (blank_request GET) ?st =
             (abort 403, ?st)"
    and 3: "handle_request sample_environ (Delete_route 7) (blank_request GET) ?st =
             (Raise UnmappedInstanceError, ?st)"
    by simp_all
  from absent_post_outcomes [OF n r, of "comment_form ''Hi''" sample_environ] m v l
  have 4: "handle_request sample_environ (Post_route 7) (comment_form ''Hi'') ?st =
             (Raise AttributeError, ?st)"
    by simp
  from n r g a i m v l 1 2 3 4 show ?thesis by simp
qed

text \<open>Claim C7 as stated fails: for the admin, editing the absent post 7 is answered
  403, neither a 404 nor a server error; and viewing it returns the page template
  applied to \<^verbatim>\<open>None\<close>, as for a post that exists.\<close>

theorem absent_post_edit_is_forbidden:
  "BlogPost_query_get (database (sample_state (Some 1))) 7 = None \<and>
   post_id_in_range 7 \<and>
   handle_request sample_environ (Edit_post_route 7) (blank_request GET) (sample_state (Some 1)) =
     (Raise (HTTPException 403), sample_state (Some 1)) \<and>
   status_code (Raise (HTTPException 403)) \<noteq> 404 \<and>
   status_code (Raise (HTTPException 403)) \<noteq> 500 \<and>
   handle_request sample_environ (Post_route 7) (blank_request GET) (sample_state None) =
     (Return (Render (Post_html None)), sample_state None)"
  by (simp add: request_defs user_defs sample_defs admin_only_def admin_only_try_def abort_def
      edit_post_def BlogPost_query_get_def show_post_def form_defs post_id_in_range_def)

end
